theory Spec2Isabelle
  imports Complex_Main
begin

section \<open>Arbitrage calculator (arbitrage/calculator.ts)\<close>

text \<open>
  JavaScript numbers are modelled as real numbers: prices, sizes and costs are the
  finite values the venues send, and the arithmetic of the calculator is the exact one.
\<close>

record order_level =
  lv_price :: real
  lv_size :: real

record Orderbook =
  ob_marketId :: string
  bids :: "order_level list"
  asks :: "order_level list"
  ob_timestamp :: int

datatype book_side = Bid | Ask

datatype outcome = Yes | No

text \<open>\<open>Math.max(...xs)\<close> and \<open>Math.min(...xs)\<close> are only reached on non-empty lists.\<close>

definition extractBestPrice :: "Orderbook \<Rightarrow> book_side \<Rightarrow> real option" where
  "extractBestPrice orderbook side =
     (case side of
        Bid \<Rightarrow> if bids orderbook = [] then None
               else Some (Max (set (map lv_price (bids orderbook))))
      | Ask \<Rightarrow> if asks orderbook = [] then None
               else Some (Min (set (map lv_price (asks orderbook)))))"

text \<open>The optional \<open>maxPrice\<close> is tested for truthiness: absent and \<open>0\<close> both mean no filter.\<close>

definition calculateLiquidity :: "Orderbook \<Rightarrow> book_side \<Rightarrow> real option \<Rightarrow> real" where
  "calculateLiquidity orderbook side maxPrice =
     (case side of
        Bid \<Rightarrow>
          (let relevantBids =
                 (case maxPrice of
                    None \<Rightarrow> bids orderbook
                  | Some p \<Rightarrow> if p = 0 then bids orderbook
                              else filter (\<lambda>b. lv_price b \<ge> p) (bids orderbook))
           in foldl (\<lambda>sum bid. sum + lv_size bid) 0 relevantBids)
      | Ask \<Rightarrow>
          (let relevantAsks =
                 (case maxPrice of
                    None \<Rightarrow> asks orderbook
                  | Some p \<Rightarrow> if p = 0 then asks orderbook
                              else filter (\<lambda>a. lv_price a \<le> p) (asks orderbook))
           in foldl (\<lambda>sum ask. sum + lv_size ask) 0 relevantAsks))"

record price_liquidity =
  pl_price :: real
  pl_liquidity :: real

definition extractMarketPrices :: "Orderbook \<Rightarrow> outcome \<Rightarrow> price_liquidity option" where
  "extractMarketPrices orderbook outcome =
     (case (extractBestPrice orderbook Bid, extractBestPrice orderbook Ask) of
        (Some bestBid, Some bestAsk) \<Rightarrow>
          (let midPrice = (bestBid + bestAsk) / 2;
               liquidity = calculateLiquidity orderbook Bid None
                         + calculateLiquidity orderbook Ask None
           in Some \<lparr>pl_price = midPrice, pl_liquidity = liquidity\<rparr>)
      | _ \<Rightarrow> None)"

record MarketPrices =
  mp_marketId :: string
  yesPrice :: real
  noPrice :: real
  yesLiquidity :: real
  noLiquidity :: real
  mp_timestamp :: int

text \<open>The \<open>arbitrage\<close> section of the configuration (config/config.ts).\<close>

record arbitrage_config =
  threshold :: real
  minLiquidity :: real
  autoExecute :: bool
  maxPositionSize :: real

definition OPINION_FEE_RATE :: real where
  "OPINION_FEE_RATE = 2 / 100"

definition POLYMARKET_FEE_RATE :: real where
  "POLYMARKET_FEE_RATE = 2 / 100"

record ArbitrageCalculation =
  c_combinedCost :: real
  c_profitPotential :: real
  c_opinionSide :: outcome
  c_polymarketSide :: outcome
  c_recommendedSize :: real
  c_estimatedFees :: real
  c_netProfit :: real

definition path1Cost :: "MarketPrices \<Rightarrow> MarketPrices \<Rightarrow> real" where
  "path1Cost opinionPrices polymarketPrices = yesPrice opinionPrices + noPrice polymarketPrices"

definition path2Cost :: "MarketPrices \<Rightarrow> MarketPrices \<Rightarrow> real" where
  "path2Cost opinionPrices polymarketPrices = noPrice opinionPrices + yesPrice polymarketPrices"

definition calculateArbitrage ::
  "arbitrage_config \<Rightarrow> MarketPrices \<Rightarrow> MarketPrices \<Rightarrow> ArbitrageCalculation option" where
  "calculateArbitrage cfg opinionPrices polymarketPrices =
     (let bestPath = (if path1Cost opinionPrices polymarketPrices
                         < path2Cost opinionPrices polymarketPrices then (1::nat) else 2);
          combinedCost = (if bestPath = 1 then path1Cost opinionPrices polymarketPrices
                          else path2Cost opinionPrices polymarketPrices)
      in if combinedCost \<ge> threshold cfg then None
         else
           let profitPotential = 1 - combinedCost;
               opinionSide = (if bestPath = 1 then Yes else No);
               polymarketSide = (if bestPath = 1 then No else Yes);
               opinionLiquidity = (if opinionSide = Yes then yesLiquidity opinionPrices
                                   else noLiquidity opinionPrices);
               polymarketLiquidity = (if polymarketSide = Yes then yesLiquidity polymarketPrices
                                      else noLiquidity polymarketPrices);
               recommendedSize = min (min opinionLiquidity polymarketLiquidity)
                                     (maxPositionSize cfg)
           in if recommendedSize < minLiquidity cfg then None
              else
                let opinionFee = recommendedSize * OPINION_FEE_RATE;
                    polymarketFee = recommendedSize * POLYMARKET_FEE_RATE;
                    estimatedFees = opinionFee + polymarketFee;
                    grossProfit = recommendedSize * profitPotential;
                    netProfit = grossProfit - estimatedFees
                in if netProfit \<le> 0 then None
                   else Some \<lparr>c_combinedCost = combinedCost,
                              c_profitPotential = profitPotential,
                              c_opinionSide = opinionSide,
                              c_polymarketSide = polymarketSide,
                              c_recommendedSize = recommendedSize,
                              c_estimatedFees = estimatedFees,
                              c_netProfit = netProfit\<rparr>)"


section \<open>Persistent store (database/migrations/001_initial_schema.sql and database/models)\<close>

text \<open>
  The three tables are lists of rows in insertion order. A statement fails exactly when it
  violates a constraint of the schema; the loss of the database connection is outside the
  model. Identifiers generated by the database (\<open>gen_random_uuid()\<close>) are modelled as
  fresh row numbers.
\<close>

type_synonym uuid = nat

datatype error_code =
    DUPLICATE_EXECUTION | SIZE_LIMIT_EXCEEDED | EXECUTION_FAILED
  | ORDER_PLACE_ERROR | ORDER_CANCEL_ERROR
  | CREATE_ERROR | UPDATE_ERROR | QUERY_ERROR

record MarketMapping =
  canonical_market_id :: string
  opinion_market_id :: "string option"
  polymarket_market_id :: "string option"
  market_title :: string
  similarity_score :: "real option"

datatype OpportunityStatus = detected | executing | executed | expired

record opportunity_row =
  r_id :: uuid
  r_canonical_market_id :: string
  r_combined_cost :: real
  r_profit_potential :: real
  r_opinion_price_yes :: "real option"
  r_opinion_price_no :: "real option"
  r_polymarket_price_yes :: "real option"
  r_polymarket_price_no :: "real option"
  r_liquidity_opinion :: "real option"
  r_liquidity_polymarket :: "real option"
  r_detected_at :: int
  r_status :: OpportunityStatus

datatype Platform = opinion | polymarket

datatype TradeStatus = pending | filled | cancelled | failed

record trade_row =
  t_id :: uuid
  t_arbitrage_opportunity_id :: "uuid option"
  t_platform :: Platform
  t_market_id :: string
  t_side :: outcome
  t_amount :: real
  t_price :: real
  t_order_id :: "string option"
  t_status :: TradeStatus

record database =
  market_mappings :: "MarketMapping list"
  arbitrage_opportunities :: "opportunity_row list"
  trades :: "trade_row list"

text \<open>
  A value stored in a \<open>DECIMAL(p, s)\<close> column is rounded to \<open>s\<close> decimals, ties away
  from zero, and rejected when the rounded value needs more than \<open>p\<close> digits. The
  \<open>CHECK\<close> constraints see the rounded value.
\<close>

definition pg_round :: "nat \<Rightarrow> real \<Rightarrow> real" where
  "pg_round s x = sgn x * of_int \<lfloor>\<bar>x\<bar> * 10 ^ s + 1 / 2\<rfloor> / 10 ^ s"

definition numeric_fits :: "nat \<Rightarrow> nat \<Rightarrow> real \<Rightarrow> bool" where
  "numeric_fits p s x = (\<bar>pg_round s x\<bar> < 10 ^ (p - s))"

text \<open>\<open>x || null\<close>: the number \<open>0\<close> and the empty string are stored as \<open>NULL\<close>.\<close>

definition or_null :: "real \<Rightarrow> real option" where
  "or_null x = (if x = 0 then None else Some x)"

definition str_or_null :: "string option \<Rightarrow> string option" where
  "str_or_null x = (case x of None \<Rightarrow> None | Some s \<Rightarrow> if s = [] then None else Some s)"

definition opt_fits :: "nat \<Rightarrow> nat \<Rightarrow> real option \<Rightarrow> bool" where
  "opt_fits p s x = (case x of None \<Rightarrow> True | Some v \<Rightarrow> numeric_fits p s v)"

definition findByCanonicalId :: "database \<Rightarrow> string \<Rightarrow> MarketMapping option" where
  "findByCanonicalId db canonicalId =
     find (\<lambda>m. canonical_market_id m = canonicalId) (market_mappings db)"

definition findByOpinionId :: "database \<Rightarrow> string \<Rightarrow> MarketMapping option" where
  "findByOpinionId db opinionId =
     find (\<lambda>m. opinion_market_id m = Some opinionId) (market_mappings db)"

definition findByPolymarketId :: "database \<Rightarrow> string \<Rightarrow> MarketMapping option" where
  "findByPolymarketId db polymarketId =
     find (\<lambda>m. polymarket_market_id m = Some polymarketId) (market_mappings db)"

record CreateOpportunityInput =
  i_canonical_market_id :: string
  i_combined_cost :: real
  i_profit_potential :: real
  i_opinion_price_yes :: real
  i_opinion_price_no :: real
  i_polymarket_price_yes :: real
  i_polymarket_price_no :: real
  i_liquidity_opinion :: real
  i_liquidity_polymarket :: real

text \<open>
  \<open>ArbitrageOpportunityModel.create\<close>: the foreign key to \<open>market_mappings\<close>, the column
  types and \<open>valid_combined_cost\<close> decide whether the row is inserted. The time of the
  insertion is \<open>now\<close>.
\<close>

definition opportunity_insert_ok :: "database \<Rightarrow> CreateOpportunityInput \<Rightarrow> bool" where
  "opportunity_insert_ok db input =
     (findByCanonicalId db (i_canonical_market_id input) \<noteq> None
      \<and> numeric_fits 10 6 (i_combined_cost input)
      \<and> numeric_fits 10 6 (i_profit_potential input)
      \<and> opt_fits 10 6 (or_null (i_opinion_price_yes input))
      \<and> opt_fits 10 6 (or_null (i_opinion_price_no input))
      \<and> opt_fits 10 6 (or_null (i_polymarket_price_yes input))
      \<and> opt_fits 10 6 (or_null (i_polymarket_price_no input))
      \<and> opt_fits 15 2 (or_null (i_liquidity_opinion input))
      \<and> opt_fits 15 2 (or_null (i_liquidity_polymarket input))
      \<and> 0 \<le> pg_round 6 (i_combined_cost input)
      \<and> pg_round 6 (i_combined_cost input) \<le> 1)"

definition createOpportunity ::
  "int \<Rightarrow> database \<Rightarrow> CreateOpportunityInput \<Rightarrow> error_code + (opportunity_row \<times> database)" where
  "createOpportunity now db input =
     (if opportunity_insert_ok db input then
        let row = \<lparr>r_id = length (arbitrage_opportunities db),
                   r_canonical_market_id = i_canonical_market_id input,
                   r_combined_cost = pg_round 6 (i_combined_cost input),
                   r_profit_potential = pg_round 6 (i_profit_potential input),
                   r_opinion_price_yes = map_option (pg_round 6) (or_null (i_opinion_price_yes input)),
                   r_opinion_price_no = map_option (pg_round 6) (or_null (i_opinion_price_no input)),
                   r_polymarket_price_yes =
                     map_option (pg_round 6) (or_null (i_polymarket_price_yes input)),
                   r_polymarket_price_no =
                     map_option (pg_round 6) (or_null (i_polymarket_price_no input)),
                   r_liquidity_opinion =
                     map_option (pg_round 2) (or_null (i_liquidity_opinion input)),
                   r_liquidity_polymarket =
                     map_option (pg_round 2) (or_null (i_liquidity_polymarket input)),
                   r_detected_at = now,
                   r_status = detected\<rparr>
        in Inr (row, db\<lparr>arbitrage_opportunities := arbitrage_opportunities db @ [row]\<rparr>)
      else Inl CREATE_ERROR)"

text \<open>\<open>ArbitrageOpportunityModel.updateStatus\<close>: an \<open>UPDATE ... WHERE id = $2\<close>.\<close>

definition updateStatus :: "database \<Rightarrow> uuid \<Rightarrow> OpportunityStatus \<Rightarrow> database" where
  "updateStatus db ident status =
     db\<lparr>arbitrage_opportunities :=
          map (\<lambda>r. if r_id r = ident then r\<lparr>r_status := status\<rparr> else r)
              (arbitrage_opportunities db)\<rparr>"

definition opportunity_status :: "database \<Rightarrow> uuid \<Rightarrow> OpportunityStatus option" where
  "opportunity_status db ident =
     map_option r_status (find (\<lambda>r. r_id r = ident) (arbitrage_opportunities db))"


section \<open>Arbitrage detector (arbitrage/detector.ts)\<close>

text \<open>
  An order-book update of either venue has the shape of \<open>Orderbook\<close>; the decimal
  strings of a Polymarket update are represented by the numbers \<open>parseFloat\<close> reads from
  them. Every handler runs to completion before the next update is handled.
\<close>

record MarketOrderbooks =
  mo_opinion :: "Orderbook option"
  mo_polymarket :: "Orderbook option"

record ArbitrageOpportunity =
  o_id :: uuid
  canonicalMarketId :: string
  opinionMarketId :: string
  polymarketMarketId :: string
  combinedCost :: real
  profitPotential :: real
  opinionYesPrice :: real
  opinionNoPrice :: real
  polymarketYesPrice :: real
  polymarketNoPrice :: real
  opinionLiquidity :: real
  polymarketLiquidity :: real
  recommendedSize :: real
  detectedAt :: int

record detector =
  orderbooks :: "string \<rightharpoonup> MarketOrderbooks"
  d_db :: database
  d_emitted :: "ArbitrageOpportunity list"

text \<open>Truthiness of a nullable string: \<open>null\<close> and \<open>''\<close> are falsy.\<close>

definition truthy :: "string option \<Rightarrow> bool" where
  "truthy x = (x \<noteq> None \<and> x \<noteq> Some [])"

text \<open>The four calls of \<open>extractMarketPrices\<close> and the two \<open>MarketPrices\<close> built from them.\<close>

definition venuePrices :: "int \<Rightarrow> string \<Rightarrow> Orderbook \<Rightarrow> MarketPrices option" where
  "venuePrices now market update =
     (let book = \<lparr>ob_marketId = market, bids = bids update, asks = asks update,
                   ob_timestamp = ob_timestamp update\<rparr>
      in case (extractMarketPrices book Yes, extractMarketPrices book No) of
           (Some yes, Some no) \<Rightarrow>
             Some \<lparr>mp_marketId = market,
                   yesPrice = pl_price yes, noPrice = pl_price no,
                   yesLiquidity = pl_liquidity yes, noLiquidity = pl_liquidity no,
                   mp_timestamp = now\<rparr>
         | _ \<Rightarrow> None)"

text \<open>The object literals \<open>opportunity\<close> and \<open>input\<close> of \<open>checkArbitrage\<close>; the id is set
  when the row has been saved.\<close>

definition opportunity_of ::
  "int \<Rightarrow> string \<Rightarrow> MarketMapping \<Rightarrow> MarketPrices \<Rightarrow> MarketPrices \<Rightarrow> ArbitrageCalculation
     \<Rightarrow> ArbitrageOpportunity" where
  "opportunity_of now canonicalId mapping opinionPrices polymarketPrices calculation =
     \<lparr>o_id = 0,
      canonicalMarketId = canonicalId,
      opinionMarketId = the (opinion_market_id mapping),
      polymarketMarketId = the (polymarket_market_id mapping),
      combinedCost = c_combinedCost calculation,
      profitPotential = c_profitPotential calculation,
      opinionYesPrice = yesPrice opinionPrices,
      opinionNoPrice = noPrice opinionPrices,
      polymarketYesPrice = yesPrice polymarketPrices,
      polymarketNoPrice = noPrice polymarketPrices,
      opinionLiquidity = min (yesLiquidity opinionPrices) (noLiquidity opinionPrices),
      polymarketLiquidity = min (yesLiquidity polymarketPrices) (noLiquidity polymarketPrices),
      recommendedSize = c_recommendedSize calculation,
      detectedAt = now\<rparr>"

definition input_of ::
  "string \<Rightarrow> MarketPrices \<Rightarrow> MarketPrices \<Rightarrow> ArbitrageCalculation \<Rightarrow> ArbitrageOpportunity
     \<Rightarrow> CreateOpportunityInput" where
  "input_of canonicalId opinionPrices polymarketPrices calculation opportunity =
     \<lparr>i_canonical_market_id = canonicalId,
      i_combined_cost = c_combinedCost calculation,
      i_profit_potential = c_profitPotential calculation,
      i_opinion_price_yes = yesPrice opinionPrices,
      i_opinion_price_no = noPrice opinionPrices,
      i_polymarket_price_yes = yesPrice polymarketPrices,
      i_polymarket_price_no = noPrice polymarketPrices,
      i_liquidity_opinion = opinionLiquidity opportunity,
      i_liquidity_polymarket = polymarketLiquidity opportunity\<rparr>"

definition checkArbitrage :: "arbitrage_config \<Rightarrow> int \<Rightarrow> string \<Rightarrow> detector \<Rightarrow> detector" where
  "checkArbitrage cfg now canonicalId st =
     (case orderbooks st canonicalId of
        None \<Rightarrow> st
      | Some books \<Rightarrow>
          (case (mo_opinion books, mo_polymarket books) of
             (Some opinionUpdate, Some polymarketUpdate) \<Rightarrow>
               (case findByCanonicalId (d_db st) canonicalId of
                  None \<Rightarrow> st
                | Some mapping \<Rightarrow>
                    if \<not> truthy (opinion_market_id mapping) then st
                    else if \<not> truthy (polymarket_market_id mapping) then st
                    else
                      (case (venuePrices now (the (opinion_market_id mapping)) opinionUpdate,
                             venuePrices now (the (polymarket_market_id mapping)) polymarketUpdate) of
                         (Some opinionPrices, Some polymarketPrices) \<Rightarrow>
                           (case calculateArbitrage cfg opinionPrices polymarketPrices of
                              None \<Rightarrow> st
                            | Some calculation \<Rightarrow>
                                let opportunity =
                                      opportunity_of now canonicalId mapping
                                        opinionPrices polymarketPrices calculation;
                                    input =
                                      input_of canonicalId opinionPrices polymarketPrices
                                        calculation opportunity
                                in (case createOpportunity now (d_db st) input of
                                      Inl err \<Rightarrow> st
                                    | Inr (savedOpportunity, db') \<Rightarrow>
                                        st\<lparr>d_db := db',
                                           d_emitted := d_emitted st
                                             @ [opportunity\<lparr>o_id := r_id savedOpportunity\<rparr>]\<rparr>))
                       | _ \<Rightarrow> st))
           | _ \<Rightarrow> st))"

definition handleOpinionOrderbook ::
  "arbitrage_config \<Rightarrow> int \<Rightarrow> Orderbook \<Rightarrow> detector \<Rightarrow> detector" where
  "handleOpinionOrderbook cfg now update st =
     (case findByOpinionId (d_db st) (ob_marketId update) of
        None \<Rightarrow> st
      | Some mapping \<Rightarrow>
          let canonicalId = canonical_market_id mapping;
              books = (case orderbooks st canonicalId of
                         None \<Rightarrow> \<lparr>mo_opinion = None, mo_polymarket = None\<rparr>
                       | Some b \<Rightarrow> b);
              st' = st\<lparr>orderbooks := (orderbooks st)
                         (canonicalId \<mapsto> books\<lparr>mo_opinion := Some update\<rparr>)\<rparr>
          in checkArbitrage cfg now canonicalId st')"

definition handlePolymarketOrderbook ::
  "arbitrage_config \<Rightarrow> int \<Rightarrow> Orderbook \<Rightarrow> detector \<Rightarrow> detector" where
  "handlePolymarketOrderbook cfg now update st =
     (case findByPolymarketId (d_db st) (ob_marketId update) of
        None \<Rightarrow> st
      | Some mapping \<Rightarrow>
          let canonicalId = canonical_market_id mapping;
              books = (case orderbooks st canonicalId of
                         None \<Rightarrow> \<lparr>mo_opinion = None, mo_polymarket = None\<rparr>
                       | Some b \<Rightarrow> b);
              st' = st\<lparr>orderbooks := (orderbooks st)
                         (canonicalId \<mapsto> books\<lparr>mo_polymarket := Some update\<rparr>)\<rparr>
          in checkArbitrage cfg now canonicalId st')"


section \<open>Two-leg execution (trading/executor.ts, trading/types.ts)\<close>

datatype OrderSide = buy | sell

record PlaceOrderParams =
  p_marketId :: string
  p_side :: OrderSide
  p_outcome :: outcome
  p_amount :: real
  p_price :: real

text \<open>
  The traders are the venues' REST adapters. What a venue answers is an input of the
  model: \<open>placeOrder\<close> either resolves with the order id the venue assigned or rejects
  with a reason, and \<open>cancelOrder\<close> either resolves or rejects.
\<close>

datatype place_reply = Placed string | Rejected string

record venue_replies =
  opinion_place :: place_reply
  polymarket_place :: place_reply
  opinion_cancel_ok :: bool
  polymarket_cancel_ok :: bool

datatype venue_call =
    PlaceOrder Platform PlaceOrderParams
  | CancelOrder Platform string

record trade_ref =
  tr_id :: uuid
  tr_platform :: Platform
  tr_orderId :: string

record ExecutionResult =
  x_success :: bool
  x_opportunityId :: uuid
  x_opinionOrderId :: "string option"
  x_polymarketOrderId :: "string option"
  x_error :: "string option"
  x_trades :: "trade_ref list"

datatype executor_event =
    execution_success ExecutionResult
  | execution_failed ExecutionResult

record executor =
  executingOpportunities :: "uuid set"
  e_db :: database
  e_calls :: "venue_call list"
  e_events :: "executor_event list"
  e_cancel_errors :: "(Platform \<times> string) list"

record CreateTradeInput =
  ti_arbitrage_opportunity_id :: uuid
  ti_platform :: Platform
  ti_market_id :: string
  ti_side :: outcome
  ti_amount :: real
  ti_price :: real
  ti_order_id :: string

text \<open>
  \<open>TradeModel.create\<close>: the foreign key to \<open>arbitrage_opportunities\<close>, the column types,
  \<open>positive_amount\<close> and \<open>valid_price\<close> decide whether the row is inserted.
\<close>

definition trade_insert_ok :: "database \<Rightarrow> CreateTradeInput \<Rightarrow> bool" where
  "trade_insert_ok db input =
     (opportunity_status db (ti_arbitrage_opportunity_id input) \<noteq> None
      \<and> numeric_fits 15 2 (ti_amount input)
      \<and> numeric_fits 10 6 (ti_price input)
      \<and> 0 < pg_round 2 (ti_amount input)
      \<and> 0 \<le> pg_round 6 (ti_price input)
      \<and> pg_round 6 (ti_price input) \<le> 1)"

definition createTrade :: "database \<Rightarrow> CreateTradeInput \<Rightarrow> error_code + (trade_row \<times> database)" where
  "createTrade db input =
     (if trade_insert_ok db input then
        let row = \<lparr>t_id = length (trades db),
                   t_arbitrage_opportunity_id = Some (ti_arbitrage_opportunity_id input),
                   t_platform = ti_platform input,
                   t_market_id = ti_market_id input,
                   t_side = ti_side input,
                   t_amount = pg_round 2 (ti_amount input),
                   t_price = pg_round 6 (ti_price input),
                   t_order_id = str_or_null (Some (ti_order_id input)),
                   t_status = pending\<rparr>
        in Inr (row, db\<lparr>trades := trades db @ [row]\<rparr>)
      else Inl CREATE_ERROR)"

text \<open>
  The \<open>catch\<close> block of \<open>executeArbitrage\<close>: the status becomes \<open>expired\<close> and the error is
  thrown again; \<open>finally\<close> removes the id from the in-flight set.
\<close>

definition catch_finally :: "uuid \<Rightarrow> error_code \<Rightarrow> executor \<Rightarrow> (error_code + ExecutionResult) \<times> executor" where
  "catch_finally ident err st =
     (Inl err,
      st\<lparr>e_db := updateStatus (e_db st) ident expired,
         executingOpportunities := executingOpportunities st - {ident}\<rparr>)"

definition join_errors :: "string list \<Rightarrow> string" where
  "join_errors errors = concat (case errors of [] \<Rightarrow> [] | e # es \<Rightarrow> e # map (\<lambda>x. ''; '' @ x) es)"

definition executeArbitrage ::
  "arbitrage_config \<Rightarrow> venue_replies \<Rightarrow> ArbitrageOpportunity \<Rightarrow> executor
     \<Rightarrow> (error_code + ExecutionResult) \<times> executor" where
  "executeArbitrage cfg venue opportunity st0 =
     (if o_id opportunity \<in> executingOpportunities st0 then (Inl DUPLICATE_EXECUTION, st0)
      else
        let st1 = st0\<lparr>executingOpportunities := insert (o_id opportunity) (executingOpportunities st0)\<rparr>;
            st2 = st1\<lparr>e_db := updateStatus (e_db st1) (o_id opportunity) executing\<rparr>;
            opinionSide = (if combinedCost opportunity < 98 / 100 then Yes else No);
            polymarketSide = (if combinedCost opportunity < 98 / 100 then No else Yes);
            opinionPrice = (if opinionSide = Yes then opinionYesPrice opportunity
                            else opinionNoPrice opportunity);
            polymarketPrice = (if polymarketSide = Yes then polymarketYesPrice opportunity
                               else polymarketNoPrice opportunity)
        in if recommendedSize opportunity > maxPositionSize cfg
           then catch_finally (o_id opportunity) SIZE_LIMIT_EXCEEDED st2
           else
             let st3 = st2\<lparr>e_calls := e_calls st2 @
                        [PlaceOrder opinion
                           \<lparr>p_marketId = opinionMarketId opportunity, p_side = buy,
                            p_outcome = opinionSide, p_amount = recommendedSize opportunity,
                            p_price = opinionPrice\<rparr>,
                         PlaceOrder polymarket
                           \<lparr>p_marketId = polymarketMarketId opportunity, p_side = buy,
                            p_outcome = polymarketSide, p_amount = recommendedSize opportunity,
                            p_price = polymarketPrice\<rparr>]\<rparr>
             in (case (opinion_place venue, polymarket_place venue) of
                   (Placed opinionOrderId, Placed polymarketOrderId) \<Rightarrow>
                     (case createTrade (e_db st3)
                             \<lparr>ti_arbitrage_opportunity_id = o_id opportunity,
                              ti_platform = opinion,
                              ti_market_id = opinionMarketId opportunity,
                              ti_side = opinionSide,
                              ti_amount = recommendedSize opportunity,
                              ti_price = opinionPrice,
                              ti_order_id = opinionOrderId\<rparr> of
                        Inl err \<Rightarrow> catch_finally (o_id opportunity) err st3
                      | Inr (opinionTrade, db4) \<Rightarrow>
                          (case createTrade db4
                                  \<lparr>ti_arbitrage_opportunity_id = o_id opportunity,
                                   ti_platform = polymarket,
                                   ti_market_id = polymarketMarketId opportunity,
                                   ti_side = polymarketSide,
                                   ti_amount = recommendedSize opportunity,
                                   ti_price = polymarketPrice,
                                   ti_order_id = polymarketOrderId\<rparr> of
                             Inl err \<Rightarrow> catch_finally (o_id opportunity) err (st3\<lparr>e_db := db4\<rparr>)
                           | Inr (polymarketTrade, db5) \<Rightarrow>
                               let result =
                                     \<lparr>x_success = True,
                                      x_opportunityId = o_id opportunity,
                                      x_opinionOrderId = Some opinionOrderId,
                                      x_polymarketOrderId = Some polymarketOrderId,
                                      x_error = None,
                                      x_trades =
                                        [\<lparr>tr_id = t_id opinionTrade, tr_platform = opinion,
                                          tr_orderId = opinionOrderId\<rparr>,
                                         \<lparr>tr_id = t_id polymarketTrade, tr_platform = polymarket,
                                          tr_orderId = polymarketOrderId\<rparr>]\<rparr>
                               in (Inr result,
                                   st3\<lparr>e_db := updateStatus db5 (o_id opportunity) executed,
                                       e_events := e_events st3 @ [execution_success result],
                                       executingOpportunities :=
                                         executingOpportunities st3 - {o_id opportunity}\<rparr>)))
                 | (opinionOrder, polymarketOrder) \<Rightarrow>
                     let errors1 = (case opinionOrder of
                                      Rejected reason \<Rightarrow> [''Opinion order failed: '' @ reason]
                                    | Placed _ \<Rightarrow> []);
                         st4 = (case opinionOrder of
                                  Rejected _ \<Rightarrow> st3
                                | Placed orderId \<Rightarrow>
                                    st3\<lparr>e_calls := e_calls st3 @ [CancelOrder opinion orderId],
                                        e_cancel_errors := e_cancel_errors st3 @
                                          (if opinion_cancel_ok venue then []
                                           else [(opinion, orderId)])\<rparr>);
                         errors2 = (case polymarketOrder of
                                      Rejected reason \<Rightarrow>
                                        errors1 @ [''Polymarket order failed: '' @ reason]
                                    | Placed _ \<Rightarrow> errors1);
                         st5 = (case polymarketOrder of
                                  Rejected _ \<Rightarrow> st4
                                | Placed orderId \<Rightarrow>
                                    st4\<lparr>e_calls := e_calls st4 @ [CancelOrder polymarket orderId],
                                        e_cancel_errors := e_cancel_errors st4 @
                                          (if polymarket_cancel_ok venue then []
                                           else [(polymarket, orderId)])\<rparr>);
                         st6 = st5\<lparr>e_db := updateStatus (e_db st5) (o_id opportunity) expired\<rparr>;
                         result = \<lparr>x_success = False,
                                   x_opportunityId = o_id opportunity,
                                   x_opinionOrderId = None,
                                   x_polymarketOrderId = None,
                                   x_error = Some (join_errors errors2),
                                   x_trades = []\<rparr>;
                         st7 = st6\<lparr>e_events := e_events st6 @ [execution_failed result]\<rparr>
                     in catch_finally (o_id opportunity) EXECUTION_FAILED st7))"


section \<open>Venue clients (websocket/opinionClient.ts, websocket/polymarketClient.ts)\<close>

datatype readyState = CONNECTING | OPEN | CLOSING | CLOSED

datatype client_message = subscribe string | unsubscribe string | auth

text \<open>A socket with the messages the client has sent on it, oldest first.\<close>

record WebSocket =
  readyState :: readyState
  ws_sent :: "client_message list"

text \<open>websocket/reconnectHandler.ts; the pending timer is kept with its delay in ms.\<close>

record ReconnectHandler =
  retryCount :: nat
  isReconnecting :: bool
  reconnectTimer :: "nat option"
  maxRetriesReached :: bool

definition rh_reset :: "ReconnectHandler \<Rightarrow> ReconnectHandler" where
  "rh_reset h = h\<lparr>retryCount := 0, isReconnecting := False, reconnectTimer := None\<rparr>"

definition rh_cancel :: "ReconnectHandler \<Rightarrow> ReconnectHandler" where
  "rh_cancel h = h\<lparr>reconnectTimer := None, isReconnecting := False\<rparr>"

definition scheduleReconnect :: "ReconnectHandler \<Rightarrow> ReconnectHandler" where
  "scheduleReconnect h =
     (if isReconnecting h then h
      else if retryCount h \<ge> 10 then h\<lparr>maxRetriesReached := True\<rparr>
      else h\<lparr>isReconnecting := True,
             reconnectTimer := Some (min (1000 * 2 ^ retryCount h) 30000)\<rparr>)"

datatype client_event = Connected | Disconnected

text \<open>
  \<open>subscribedMarkets\<close> is a JavaScript \<open>Set\<close>: a duplicate-free list in insertion order.
\<close>

record OpinionWebSocketClient =
  ws :: "WebSocket option"
  reconnectHandler :: ReconnectHandler
  subscribedMarkets :: "string list"
  isConnected :: bool
  heartbeatInterval :: bool
  oc_emitted :: "client_event list"

definition subscribeToMarket :: "string \<Rightarrow> OpinionWebSocketClient \<Rightarrow> OpinionWebSocketClient" where
  "subscribeToMarket marketId c =
     (case ws c of
        None \<Rightarrow> c
      | Some sock \<Rightarrow>
          if \<not> isConnected c then c
          else if readyState sock \<noteq> OPEN then c
          else if marketId \<in> set (subscribedMarkets c) then c
          else c\<lparr>ws := Some (sock\<lparr>ws_sent := ws_sent sock @ [subscribe marketId]\<rparr>),
                 subscribedMarkets := subscribedMarkets c @ [marketId]\<rparr>)"

definition unsubscribeFromMarket :: "string \<Rightarrow> OpinionWebSocketClient \<Rightarrow> OpinionWebSocketClient" where
  "unsubscribeFromMarket marketId c =
     (case ws c of
        None \<Rightarrow> c
      | Some sock \<Rightarrow>
          if \<not> isConnected c then c
          else if readyState sock \<noteq> OPEN then c
          else if marketId \<notin> set (subscribedMarkets c) then c
          else c\<lparr>ws := Some (sock\<lparr>ws_sent := ws_sent sock @ [unsubscribe marketId]\<rparr>),
                 subscribedMarkets := removeAll marketId (subscribedMarkets c)\<rparr>)"

definition resubscribe :: "OpinionWebSocketClient \<Rightarrow> OpinionWebSocketClient" where
  "resubscribe c = fold subscribeToMarket (subscribedMarkets c) c"

text \<open>\<open>connect()\<close> up to the creation of the socket: \<open>new WebSocket(url)\<close>.\<close>

definition connect :: "OpinionWebSocketClient \<Rightarrow> OpinionWebSocketClient" where
  "connect c =
     (if isConnected c \<and> map_option readyState (ws c) = Some OPEN then c
      else c\<lparr>ws := Some \<lparr>readyState = CONNECTING, ws_sent = []\<rparr>\<rparr>)"

text \<open>The \<open>open\<close> handler, run when the socket has become \<open>OPEN\<close>.\<close>

definition on_open :: "OpinionWebSocketClient \<Rightarrow> OpinionWebSocketClient" where
  "on_open c =
     (let c1 = c\<lparr>ws := map_option (\<lambda>sock. sock\<lparr>readyState := OPEN\<rparr>) (ws c),
                 isConnected := True,
                 reconnectHandler := rh_reset (reconnectHandler c),
                 heartbeatInterval := True\<rparr>;
          c2 = resubscribe c1
      in c2\<lparr>oc_emitted := oc_emitted c2 @ [Connected]\<rparr>)"

text \<open>The \<open>close\<close> handler, run when the socket has become \<open>CLOSED\<close>.\<close>

definition on_close :: "OpinionWebSocketClient \<Rightarrow> OpinionWebSocketClient" where
  "on_close c =
     c\<lparr>ws := map_option (\<lambda>sock. sock\<lparr>readyState := CLOSED\<rparr>) (ws c),
       isConnected := False,
       heartbeatInterval := False,
       oc_emitted := oc_emitted c @ [Disconnected],
       reconnectHandler := scheduleReconnect (reconnectHandler c)\<rparr>"

text \<open>The reconnect timer fires: \<open>retryCount++\<close> and \<open>connectFn()\<close>.\<close>

definition reconnect_timer :: "OpinionWebSocketClient \<Rightarrow> OpinionWebSocketClient" where
  "reconnect_timer c =
     connect (c\<lparr>reconnectHandler :=
                  (reconnectHandler c)\<lparr>retryCount := Suc (retryCount (reconnectHandler c)),
                                        reconnectTimer := None\<rparr>\<rparr>)"

definition disconnect :: "OpinionWebSocketClient \<Rightarrow> OpinionWebSocketClient" where
  "disconnect c =
     c\<lparr>reconnectHandler := rh_cancel (reconnectHandler c),
       heartbeatInterval := False,
       ws := None,
       isConnected := False,
       subscribedMarkets := []\<rparr>"

record PolymarketWebSocketClient =
  pm_ws :: "WebSocket option"
  pm_reconnectHandler :: ReconnectHandler
  pm_subscribedMarkets :: "string list"
  pm_isConnected :: bool
  pm_isAuthenticated :: bool
  pm_heartbeatInterval :: bool
  pm_emitted :: "client_event list"

definition pm_subscribeToMarket ::
  "string \<Rightarrow> PolymarketWebSocketClient \<Rightarrow> PolymarketWebSocketClient" where
  "pm_subscribeToMarket marketId c =
     (case pm_ws c of
        None \<Rightarrow> c
      | Some sock \<Rightarrow>
          if \<not> pm_isConnected c then c
          else if \<not> pm_isAuthenticated c then c
          else if readyState sock \<noteq> OPEN then c
          else if marketId \<in> set (pm_subscribedMarkets c) then c
          else c\<lparr>pm_ws := Some (sock\<lparr>ws_sent := ws_sent sock @ [subscribe marketId]\<rparr>),
                 pm_subscribedMarkets := pm_subscribedMarkets c @ [marketId]\<rparr>)"

definition pm_resubscribe :: "PolymarketWebSocketClient \<Rightarrow> PolymarketWebSocketClient" where
  "pm_resubscribe c = fold pm_subscribeToMarket (pm_subscribedMarkets c) c"

definition pm_connect :: "PolymarketWebSocketClient \<Rightarrow> PolymarketWebSocketClient" where
  "pm_connect c =
     (if pm_isConnected c \<and> map_option readyState (pm_ws c) = Some OPEN then c
      else c\<lparr>pm_ws := Some \<lparr>readyState = CONNECTING, ws_sent = []\<rparr>\<rparr>)"

text \<open>The \<open>open\<close> handler up to the sending of the authentication message.\<close>

definition pm_on_open :: "PolymarketWebSocketClient \<Rightarrow> PolymarketWebSocketClient" where
  "pm_on_open c =
     c\<lparr>pm_ws := map_option (\<lambda>sock. sock\<lparr>readyState := OPEN, ws_sent := ws_sent sock @ [auth]\<rparr>)
                           (pm_ws c),
       pm_isConnected := True,
       pm_reconnectHandler := rh_reset (pm_reconnectHandler c),
       pm_heartbeatInterval := True\<rparr>"

text \<open>The venue answers \<open>auth_success\<close>: the rest of the \<open>open\<close> handler.\<close>

definition pm_on_auth_success :: "PolymarketWebSocketClient \<Rightarrow> PolymarketWebSocketClient" where
  "pm_on_auth_success c =
     (let c1 = pm_resubscribe (c\<lparr>pm_isAuthenticated := True\<rparr>)
      in c1\<lparr>pm_emitted := pm_emitted c1 @ [Connected]\<rparr>)"

definition pm_on_close :: "PolymarketWebSocketClient \<Rightarrow> PolymarketWebSocketClient" where
  "pm_on_close c =
     c\<lparr>pm_ws := map_option (\<lambda>sock. sock\<lparr>readyState := CLOSED\<rparr>) (pm_ws c),
       pm_isConnected := False,
       pm_isAuthenticated := False,
       pm_heartbeatInterval := False,
       pm_emitted := pm_emitted c @ [Disconnected],
       pm_reconnectHandler := scheduleReconnect (pm_reconnectHandler c)\<rparr>"


section \<open>Market similarity (matching/similarity.ts)\<close>

text \<open>
  Titles are ASCII strings; a \<open>Date\<close> is its time value in milliseconds.
\<close>

definition is_upper :: "char \<Rightarrow> bool" where
  "is_upper c = (65 \<le> (of_char c :: nat) \<and> (of_char c :: nat) \<le> 90)"

definition is_lower :: "char \<Rightarrow> bool" where
  "is_lower c = (97 \<le> (of_char c :: nat) \<and> (of_char c :: nat) \<le> 122)"

definition is_digit :: "char \<Rightarrow> bool" where
  "is_digit c = (48 \<le> (of_char c :: nat) \<and> (of_char c :: nat) \<le> 57)"

text \<open>The class \<open>\w\<close>: letters, digits and the underscore.\<close>

definition is_word :: "char \<Rightarrow> bool" where
  "is_word c = (is_upper c \<or> is_lower c \<or> is_digit c \<or> (of_char c :: nat) = 95)"

text \<open>The class \<open>\s\<close> within ASCII: tab, line feed, vertical tab, form feed, return, space.\<close>

definition is_space :: "char \<Rightarrow> bool" where
  "is_space c = ((9 \<le> (of_char c :: nat) \<and> (of_char c :: nat) \<le> 13) \<or> (of_char c :: nat) = 32)"

definition to_lower :: "char \<Rightarrow> char" where
  "to_lower c = (if is_upper c then char_of ((of_char c :: nat) + 32) else c)"

definition toLowerCase :: "string \<Rightarrow> string" where
  "toLowerCase str = map to_lower str"

text \<open>\<open>.replace(/\s+/g, r)\<close>: every maximal run of white space becomes \<open>r\<close>.\<close>

fun replace_spaces :: "string \<Rightarrow> string \<Rightarrow> string" where
  "replace_spaces r [] = []"
| "replace_spaces r [c] = (if is_space c then r else [c])"
| "replace_spaces r (c # d # cs) =
     (if is_space c then (if is_space d then replace_spaces r (d # cs)
                          else r @ replace_spaces r (d # cs))
      else c # replace_spaces r (d # cs))"

definition trim :: "string \<Rightarrow> string" where
  "trim str = rev (dropWhile is_space (rev (dropWhile is_space str)))"

definition normalizeString :: "string \<Rightarrow> string" where
  "normalizeString str =
     trim (replace_spaces '' ''
       (map (\<lambda>c. if is_word c then c else if is_space c then c else CHR '' '')
          (toLowerCase str)))"

text \<open>\<open>.split(/\s+/)\<close>, with the token read so far in reverse as accumulator.\<close>

fun split_spaces :: "string \<Rightarrow> string \<Rightarrow> string list" where
  "split_spaces acc [] = [rev acc]"
| "split_spaces acc [c] = (if is_space c then [rev acc, []] else [rev (c # acc)])"
| "split_spaces acc (c # d # cs) =
     (if is_space c then (if is_space d then split_spaces acc (d # cs)
                          else rev acc # split_spaces [] (d # cs))
      else split_spaces (c # acc) (d # cs))"

definition tokenize :: "string \<Rightarrow> string list" where
  "tokenize text =
     filter (\<lambda>token. \<not> (token \<noteq> [] \<and> list_all is_digit token))
       (filter (\<lambda>token. length token > 2)
          (split_spaces [] (normalizeString text)))"

text \<open>
  Modelled from the spec: \<open>levenshtein.get\<close> of the package \<open>fast-levenshtein\<close>, which is
  not part of the repository: the Levenshtein edit distance of two strings.
\<close>

fun levenshtein_get :: "string \<Rightarrow> string \<Rightarrow> nat" where
  "levenshtein_get [] ys = length ys"
| "levenshtein_get (x # xs) [] = Suc (length xs)"
| "levenshtein_get (x # xs) (y # ys) =
     min (min (Suc (levenshtein_get xs (y # ys))) (Suc (levenshtein_get (x # xs) ys)))
         (levenshtein_get xs ys + (if x = y then 0 else 1))"

definition calculateLevenshteinSimilarity :: "string \<Rightarrow> string \<Rightarrow> real" where
  "calculateLevenshteinSimilarity str1 str2 =
     (let maxLen = max (length str1) (length str2)
      in if maxLen = 0 then 1
         else 1 - real (levenshtein_get str1 str2) / real maxLen)"

definition matchWindow :: "string \<Rightarrow> string \<Rightarrow> int" where
  "matchWindow str1 str2 = int (max (length str1) (length str2) div 2) - 1"

text \<open>The inner loop of the match search: the first free position of the window that
  carries the character at \<open>i\<close>.\<close>

definition find_match :: "string \<Rightarrow> string \<Rightarrow> bool list \<Rightarrow> nat \<Rightarrow> nat option" where
  "find_match str1 str2 str2Matches i =
     (let start = max 0 (int i - matchWindow str1 str2);
          end = min (int i + matchWindow str1 str2 + 1) (int (length str2))
      in find (\<lambda>j. \<not> str2Matches ! j \<and> str1 ! i = str2 ! j) [nat start ..< nat end])"

text \<open>One round of the outer loop; the state is \<open>(str1Matches, str2Matches, matches)\<close>.\<close>

definition match_step ::
  "string \<Rightarrow> string \<Rightarrow> nat \<Rightarrow> bool list \<times> bool list \<times> nat \<Rightarrow> bool list \<times> bool list \<times> nat" where
  "match_step str1 str2 i st =
     (case st of (str1Matches, str2Matches, matches) \<Rightarrow>
        (case find_match str1 str2 str2Matches i of
           None \<Rightarrow> (str1Matches, str2Matches, matches)
         | Some j \<Rightarrow> (str1Matches[i := True], str2Matches[j := True], Suc matches)))"

definition find_matches :: "string \<Rightarrow> string \<Rightarrow> bool list \<times> bool list \<times> nat" where
  "find_matches str1 str2 =
     fold (match_step str1 str2) [0 ..< length str1]
       (replicate (length str1) False, replicate (length str2) False, 0)"

text \<open>
  The transposition loop; the state is \<open>(k, transpositions)\<close>. The inner
  \<open>while (!str2Matches[k]) k++\<close> stops at the next marked position, which exists
  because both strings have the same number of marks.
\<close>

definition transposition_step ::
  "string \<Rightarrow> string \<Rightarrow> bool list \<Rightarrow> bool list \<Rightarrow> nat \<Rightarrow> nat \<times> nat \<Rightarrow> nat \<times> nat" where
  "transposition_step str1 str2 str1Matches str2Matches i st =
     (case st of (k, transpositions) \<Rightarrow>
        if \<not> str1Matches ! i then (k, transpositions)
        else let k' = k + length (takeWhile Not (drop k str2Matches))
             in (Suc k', if str1 ! i \<noteq> str2 ! k' then Suc transpositions else transpositions))"

definition count_transpositions :: "string \<Rightarrow> string \<Rightarrow> bool list \<Rightarrow> bool list \<Rightarrow> nat" where
  "count_transpositions str1 str2 str1Matches str2Matches =
     snd (fold (transposition_step str1 str2 str1Matches str2Matches) [0 ..< length str1] (0, 0))"

definition calculateJaroSimilarity :: "string \<Rightarrow> string \<Rightarrow> real" where
  "calculateJaroSimilarity str1 str2 =
     (if str1 = str2 then 1
      else if length str1 = 0 then 0
      else if length str2 = 0 then 0
      else
        (case find_matches str1 str2 of (str1Matches, str2Matches, matches) \<Rightarrow>
           if matches = 0 then 0
           else
             let transpositions = count_transpositions str1 str2 str1Matches str2Matches
             in (real matches / real (length str1)
                 + real matches / real (length str2)
                 + (real matches - real transpositions / 2) / real matches) / 3))"

definition getCommonPrefixLength :: "string \<Rightarrow> string \<Rightarrow> nat \<Rightarrow> nat" where
  "getCommonPrefixLength str1 str2 maxLength =
     (let minLength = min (min (length str1) (length str2)) maxLength
      in length (takeWhile (\<lambda>(a, b). a = b) (take minLength (zip str1 str2))))"

definition calculateJaroWinklerSimilarity :: "string \<Rightarrow> string \<Rightarrow> real" where
  "calculateJaroWinklerSimilarity str1 str2 =
     (let jaro = calculateJaroSimilarity str1 str2;
          prefixLength = getCommonPrefixLength str1 str2 4
      in jaro + (1 / 10) * real prefixLength * (1 - jaro))"

definition calculateTokenOverlap :: "string list \<Rightarrow> string list \<Rightarrow> real" where
  "calculateTokenOverlap tokens1 tokens2 =
     (let intersection = set tokens1 \<inter> set tokens2;
          union = set tokens1 \<union> set tokens2
      in if card union > 0 then real (card intersection) / real (card union) else 0)"

definition calculateDateSimilarity :: "int list \<Rightarrow> int list \<Rightarrow> real" where
  "calculateDateSimilarity dates1 dates2 =
     (if length dates1 = 0 \<and> length dates2 = 0 then 1
      else if length dates1 = 0 then 1 / 2
      else if length dates2 = 0 then 1 / 2
      else if list_ex (\<lambda>date1. list_ex (\<lambda>date2.
                 real_of_int \<bar>date1 - date2\<bar> / (1000 * 60 * 60 * 24) \<le> 1) dates2) dates1
           then 1
      else 0)"

record Market =
  m_id :: string
  m_title :: string
  m_description :: "string option"
  m_outcomes :: "string list"
  m_platform :: Platform

record NormalizedMarket =
  nm_id :: string
  normalizedTitle :: string
  tokens :: "string list"
  dates :: "int list"
  nm_outcomes :: "string list"
  nm_platform :: Platform
  original :: Market

definition calculateSimilarity :: "NormalizedMarket \<Rightarrow> NormalizedMarket \<Rightarrow> real" where
  "calculateSimilarity market1 market2 =
     (let title1 = normalizedTitle market1;
          title2 = normalizedTitle market2;
          levenshteinScore = calculateLevenshteinSimilarity title1 title2;
          jaroWinklerScore = calculateJaroWinklerSimilarity title1 title2;
          tokenOverlapScore = calculateTokenOverlap (tokens market1) (tokens market2);
          dateSimilarityScore = calculateDateSimilarity (dates market1) (dates market2);
          totalScore = levenshteinScore * (2 / 10)
                     + jaroWinklerScore * (3 / 10)
                     + tokenOverlapScore * (3 / 10)
                     + dateSimilarityScore * (2 / 10)
      in min 1 (max 0 totalScore))"

text \<open>
  \<open>extractDates\<close> scans the text with three regular expressions and parses each hit with
  the \<open>Date\<close> constructor of the runtime; it is a parameter of \<open>normalizeMarket\<close>.
\<close>

definition normalizeMarket :: "(string \<Rightarrow> int list) \<Rightarrow> Market \<Rightarrow> NormalizedMarket" where
  "normalizeMarket extractDates market =
     (let fullText = m_title market @ '' '' @ (case m_description market of
                                               None \<Rightarrow> [] | Some d \<Rightarrow> d)
      in \<lparr>nm_id = m_id market,
          normalizedTitle = normalizeString (m_title market),
          tokens = tokenize fullText,
          dates = extractDates fullText,
          nm_outcomes = map normalizeString (m_outcomes market),
          nm_platform = m_platform market,
          original = market\<rparr>)"


section \<open>Market matcher (matching/marketMatcher.ts, database/models/marketMapping.ts)\<close>

datatype confidence = high | medium | low

record MarketMatch =
  mt_canonicalId :: string
  mt_opinionMarket :: "Market option"
  mt_polymarketMarket :: "Market option"
  mt_similarityScore :: real
  mt_confidence :: confidence

definition similarityThreshold :: real where
  "similarityThreshold = 85 / 100"

text \<open>The decimal digits of a number, as the template literal prints \<open>Date.now()\<close>.\<close>

function decimal :: "nat \<Rightarrow> string" where
  "decimal n =
     (if n < 10 then [''0123456789'' ! n]
      else decimal (n div 10) @ [''0123456789'' ! (n mod 10)])"
  by pat_completeness auto
termination
  by (relation "measure id") auto

declare decimal.simps [simp del]

definition generateCanonicalId :: "nat \<Rightarrow> NormalizedMarket \<Rightarrow> NormalizedMarket \<Rightarrow> string" where
  "generateCanonicalId now market1 market2 =
     (let baseTitle = (if length (normalizedTitle market1) < length (normalizedTitle market2)
                       then normalizedTitle market1 else normalizedTitle market2);
          hash = toLowerCase (take 50 (replace_spaces ''-'' baseTitle))
      in ''market-'' @ hash @ ''-'' @ decimal now)"

definition getConfidence :: "real \<Rightarrow> confidence" where
  "getConfidence score =
     (if score \<ge> 95 / 100 then high else if score \<ge> 85 / 100 then medium else low)"

text \<open>The inner loop of \<open>matchMarkets\<close>: the best candidate among the Polymarket markets
  that are not matched yet.\<close>

definition best_step ::
  "string set \<Rightarrow> NormalizedMarket \<Rightarrow> NormalizedMarket
     \<Rightarrow> (NormalizedMarket \<times> real) option \<Rightarrow> (NormalizedMarket \<times> real) option" where
  "best_step matchedPolymarketIds opinionMarket polymarketMarket bestMatch =
     (if nm_id polymarketMarket \<in> matchedPolymarketIds then bestMatch
      else
        let similarity = calculateSimilarity opinionMarket polymarketMarket
        in if similarity \<ge> similarityThreshold then
             (case bestMatch of
                None \<Rightarrow> Some (polymarketMarket, similarity)
              | Some (m, score) \<Rightarrow>
                  if similarity > score then Some (polymarketMarket, similarity)
                  else bestMatch)
           else bestMatch)"

text \<open>
  The outer loop; the state is \<open>(matches, matchedPolymarketIds)\<close>. \<open>clock k\<close> is the value
  of \<open>Date.now()\<close> when the canonical id of the match number \<open>k\<close> of this run is generated.
\<close>

definition match_opinion ::
  "(nat \<Rightarrow> nat) \<Rightarrow> NormalizedMarket list \<Rightarrow> NormalizedMarket
     \<Rightarrow> MarketMatch list \<times> string set \<Rightarrow> MarketMatch list \<times> string set" where
  "match_opinion clock normalizedPolymarket opinionMarket st =
     (case st of (matches, matchedPolymarketIds) \<Rightarrow>
        (case fold (best_step matchedPolymarketIds opinionMarket) normalizedPolymarket None of
           None \<Rightarrow> (matches, matchedPolymarketIds)
         | Some (market, score) \<Rightarrow>
             (matches @
                [\<lparr>mt_canonicalId = generateCanonicalId (clock (length matches)) opinionMarket market,
                  mt_opinionMarket = Some (original opinionMarket),
                  mt_polymarketMarket = Some (original market),
                  mt_similarityScore = score,
                  mt_confidence = getConfidence score\<rparr>],
              insert (nm_id market) matchedPolymarketIds)))"

text \<open>\<open>matchMarkets\<close> on the market lists fetched from the two venues.\<close>

definition matchMarkets ::
  "(string \<Rightarrow> int list) \<Rightarrow> (nat \<Rightarrow> nat) \<Rightarrow> Market list \<Rightarrow> Market list \<Rightarrow> MarketMatch list" where
  "matchMarkets extractDates clock opinionMarkets polymarketMarkets =
     (let normalizedOpinion = map (normalizeMarket extractDates) opinionMarkets;
          normalizedPolymarket = map (normalizeMarket extractDates) polymarketMarkets
      in fst (fold (match_opinion clock normalizedPolymarket) normalizedOpinion ([], {})))"

record CreateMarketMappingInput =
  ci_canonical_market_id :: string
  ci_opinion_market_id :: "string option"
  ci_polymarket_market_id :: "string option"
  ci_market_title :: string
  ci_similarity_score :: real

definition varchar_fits :: "nat \<Rightarrow> string option \<Rightarrow> bool" where
  "varchar_fits n x = (case x of None \<Rightarrow> True | Some v \<Rightarrow> length v \<le> n)"

text \<open>
  \<open>MarketMappingModel.create\<close>: the unique canonical id, the column widths and
  \<open>at_least_one_market\<close> decide whether the row is inserted.
\<close>

definition mapping_insert_ok :: "database \<Rightarrow> CreateMarketMappingInput \<Rightarrow> bool" where
  "mapping_insert_ok db input =
     (findByCanonicalId db (ci_canonical_market_id input) = None
      \<and> length (ci_canonical_market_id input) \<le> 255
      \<and> varchar_fits 255 (str_or_null (ci_opinion_market_id input))
      \<and> varchar_fits 255 (str_or_null (ci_polymarket_market_id input))
      \<and> length (ci_market_title input) \<le> 500
      \<and> (truthy (ci_opinion_market_id input) \<or> truthy (ci_polymarket_market_id input)))"

definition createMapping :: "database \<Rightarrow> CreateMarketMappingInput \<Rightarrow> error_code + database" where
  "createMapping db input =
     (if mapping_insert_ok db input then
        Inr (db\<lparr>market_mappings := market_mappings db @
               [\<lparr>canonical_market_id = ci_canonical_market_id input,
                 opinion_market_id = str_or_null (ci_opinion_market_id input),
                 polymarket_market_id = str_or_null (ci_polymarket_market_id input),
                 market_title = ci_market_title input,
                 similarity_score = or_null (ci_similarity_score input)\<rparr>]\<rparr>)
      else Inl CREATE_ERROR)"

text \<open>
  \<open>MarketMappingModel.update\<close> as \<open>saveMatches\<close> calls it: the venue ids that are defined
  and the score are written to the row of the canonical id.
\<close>

definition updateMapping ::
  "database \<Rightarrow> string \<Rightarrow> string option \<Rightarrow> string option \<Rightarrow> real \<Rightarrow> error_code + database" where
  "updateMapping db ident opinionId polymarketId score =
     (if varchar_fits 255 opinionId \<and> varchar_fits 255 polymarketId then
        Inr (db\<lparr>market_mappings :=
               map (\<lambda>m. if canonical_market_id m = ident
                         then m\<lparr>opinion_market_id :=
                                  (case opinionId of None \<Rightarrow> opinion_market_id m
                                   | Some v \<Rightarrow> Some v),
                                polymarket_market_id :=
                                  (case polymarketId of None \<Rightarrow> polymarket_market_id m
                                   | Some v \<Rightarrow> Some v),
                                similarity_score := Some score\<rparr>
                         else m)
                   (market_mappings db)\<rparr>)
      else Inl UPDATE_ERROR)"

text \<open>One round of \<open>saveMatches\<close>; a failed statement is logged and the loop goes on.\<close>

definition save_match :: "MarketMatch \<Rightarrow> database \<Rightarrow> database" where
  "save_match match db =
     (case findByCanonicalId db (mt_canonicalId match) of
        Some existing \<Rightarrow>
          (case updateMapping db (mt_canonicalId match)
                  (map_option m_id (mt_opinionMarket match))
                  (map_option m_id (mt_polymarketMarket match))
                  (mt_similarityScore match) of
             Inl err \<Rightarrow> db
           | Inr db' \<Rightarrow> db')
      | None \<Rightarrow>
          (case createMapping db
                  \<lparr>ci_canonical_market_id = mt_canonicalId match,
                   ci_opinion_market_id = map_option m_id (mt_opinionMarket match),
                   ci_polymarket_market_id = map_option m_id (mt_polymarketMarket match),
                   ci_market_title =
                     (case mt_opinionMarket match of
                        Some om \<Rightarrow> if m_title om \<noteq> [] then m_title om
                                   else (case mt_polymarketMarket match of
                                           Some pm \<Rightarrow> m_title pm | None \<Rightarrow> [])
                      | None \<Rightarrow> (case mt_polymarketMarket match of
                                   Some pm \<Rightarrow> m_title pm | None \<Rightarrow> [])),
                   ci_similarity_score = mt_similarityScore match\<rparr> of
             Inl err \<Rightarrow> db
           | Inr db' \<Rightarrow> db'))"

definition saveMatches :: "MarketMatch list \<Rightarrow> database \<Rightarrow> database" where
  "saveMatches matches db = fold save_match matches db"

text \<open>\<open>syncMarkets\<close> when both venues have answered with their market lists.\<close>

definition syncMarkets ::
  "(string \<Rightarrow> int list) \<Rightarrow> (nat \<Rightarrow> nat) \<Rightarrow> Market list \<Rightarrow> Market list \<Rightarrow> database \<Rightarrow> database" where
  "syncMarkets extractDates clock opinionMarkets polymarketMarkets db =
     saveMatches (matchMarkets extractDates clock opinionMarkets polymarketMarkets) db"

section \<open>Scenarios\<close>

text \<open>The default configuration, and one whose limits are negative numbers.\<close>

definition cfg_default :: arbitrage_config where
  "cfg_default = \<lparr>threshold = 98 / 100, minLiquidity = 1000, autoExecute = False,
                   maxPositionSize = 10000\<rparr>"

definition cfg_negative :: arbitrage_config where
  "cfg_negative = \<lparr>threshold = 98 / 100, minLiquidity = - 10, autoExecute = False,
                    maxPositionSize = - 5\<rparr>"

text \<open>Venue A quotes 0.44 / 0.46 and venue B quotes 0.49 / 0.51.\<close>

definition book_A1 :: Orderbook where
  "book_A1 = \<lparr>ob_marketId = ''A1'',
               bids = [\<lparr>lv_price = 44 / 100, lv_size = 1000\<rparr>],
               asks = [\<lparr>lv_price = 46 / 100, lv_size = 1000\<rparr>],
               ob_timestamp = 0\<rparr>"

definition book_B1 :: Orderbook where
  "book_B1 = \<lparr>ob_marketId = ''B1'',
               bids = [\<lparr>lv_price = 49 / 100, lv_size = 1500\<rparr>],
               asks = [\<lparr>lv_price = 51 / 100, lv_size = 1500\<rparr>],
               ob_timestamp = 0\<rparr>"

definition prices_A1 :: MarketPrices where
  "prices_A1 = \<lparr>mp_marketId = ''A1'', yesPrice = 45 / 100, noPrice = 45 / 100,
                 yesLiquidity = 2000, noLiquidity = 2000, mp_timestamp = 0\<rparr>"

definition prices_B1 :: MarketPrices where
  "prices_B1 = \<lparr>mp_marketId = ''B1'', yesPrice = 50 / 100, noPrice = 50 / 100,
                 yesLiquidity = 3000, noLiquidity = 3000, mp_timestamp = 0\<rparr>"

definition prices_opinion_45 :: MarketPrices where
  "prices_opinion_45 = \<lparr>mp_marketId = ''A1'', yesPrice = 45 / 100, noPrice = 55 / 100,
                         yesLiquidity = 1000, noLiquidity = 1000, mp_timestamp = 0\<rparr>"

definition prices_opinion_47 :: MarketPrices where
  "prices_opinion_47 = \<lparr>mp_marketId = ''A1'', yesPrice = 47 / 100, noPrice = 53 / 100,
                         yesLiquidity = 1000, noLiquidity = 1000, mp_timestamp = 0\<rparr>"

definition prices_polymarket_50 :: MarketPrices where
  "prices_polymarket_50 = \<lparr>mp_marketId = ''B1'', yesPrice = 50 / 100, noPrice = 50 / 100,
                            yesLiquidity = 1000, noLiquidity = 1000, mp_timestamp = 0\<rparr>"

definition mapping_A1_B1 :: MarketMapping where
  "mapping_A1_B1 = \<lparr>canonical_market_id = ''C1'', opinion_market_id = Some ''A1'',
                     polymarket_market_id = Some ''B1'', market_title = ''Rain tomorrow?'',
                     similarity_score = Some 1\<rparr>"

definition db_empty :: database where
  "db_empty = \<lparr>market_mappings = [], arbitrage_opportunities = [], trades = []\<rparr>"

definition db_A1_B1 :: database where
  "db_A1_B1 = \<lparr>market_mappings = [mapping_A1_B1], arbitrage_opportunities = [], trades = []\<rparr>"

text \<open>A detector that knows the mapping and has seen no book, and one that holds both books.\<close>

definition detector0 :: detector where
  "detector0 = \<lparr>orderbooks = Map.empty, d_db = db_A1_B1, d_emitted = []\<rparr>"

definition detector_both :: detector where
  "detector_both =
     \<lparr>orderbooks = [''C1'' \<mapsto> \<lparr>mo_opinion = Some book_A1, mo_polymarket = Some book_B1\<rparr>],
      d_db = db_A1_B1, d_emitted = []\<rparr>"

definition opportunity_C1 :: ArbitrageOpportunity where
  "opportunity_C1 =
     \<lparr>o_id = 0, canonicalMarketId = ''C1'', opinionMarketId = ''A1'', polymarketMarketId = ''B1'',
      combinedCost = 95 / 100, profitPotential = 5 / 100,
      opinionYesPrice = 45 / 100, opinionNoPrice = 45 / 100,
      polymarketYesPrice = 50 / 100, polymarketNoPrice = 50 / 100,
      opinionLiquidity = 2000, polymarketLiquidity = 3000, recommendedSize = 2000,
      detectedAt = 0\<rparr>"

text \<open>An opportunity as the detector builds it from quotes of 1.19 / 1.21 on venue A and
  - 0.26 / - 0.24 on venue B.\<close>

definition opportunity_out_of_range :: ArbitrageOpportunity where
  "opportunity_out_of_range =
     \<lparr>o_id = 0, canonicalMarketId = ''C1'', opinionMarketId = ''A1'', polymarketMarketId = ''B1'',
      combinedCost = 95 / 100, profitPotential = 5 / 100,
      opinionYesPrice = 120 / 100, opinionNoPrice = 120 / 100,
      polymarketYesPrice = - 25 / 100, polymarketNoPrice = - 25 / 100,
      opinionLiquidity = 2000, polymarketLiquidity = 3000, recommendedSize = 2000,
      detectedAt = 0\<rparr>"

definition opportunity_row_C1 :: opportunity_row where
  "opportunity_row_C1 =
     \<lparr>r_id = 0, r_canonical_market_id = ''C1'', r_combined_cost = 95 / 100,
      r_profit_potential = 5 / 100,
      r_opinion_price_yes = Some (45 / 100), r_opinion_price_no = Some (45 / 100),
      r_polymarket_price_yes = Some (50 / 100), r_polymarket_price_no = Some (50 / 100),
      r_liquidity_opinion = Some 2000, r_liquidity_polymarket = Some 3000,
      r_detected_at = 0, r_status = detected\<rparr>"

definition executor0 :: executor where
  "executor0 =
     \<lparr>executingOpportunities = {},
      e_db = \<lparr>market_mappings = [mapping_A1_B1],
              arbitrage_opportunities = [opportunity_row_C1], trades = []\<rparr>,
      e_calls = [], e_events = [], e_cancel_errors = []\<rparr>"

text \<open>Venue A accepts the order as \<open>OA1\<close> and venue B rejects; the cancel succeeds.\<close>

definition venue_A_only :: venue_replies where
  "venue_A_only = \<lparr>opinion_place = Placed ''OA1'', polymarket_place = Rejected ''timeout'',
                    opinion_cancel_ok = True, polymarket_cancel_ok = True\<rparr>"

definition venue_both :: venue_replies where
  "venue_both = \<lparr>opinion_place = Placed ''OA1'', polymarket_place = Placed ''OB1'',
                  opinion_cancel_ok = True, polymarket_cancel_ok = True\<rparr>"

definition rh0 :: ReconnectHandler where
  "rh0 = \<lparr>retryCount = 0, isReconnecting = False, reconnectTimer = None,
          maxRetriesReached = False\<rparr>"

text \<open>A client that was never connected, and one that is connected and follows two markets.\<close>

definition client_idle :: OpinionWebSocketClient where
  "client_idle = \<lparr>ws = None, reconnectHandler = rh0, subscribedMarkets = [],
                   isConnected = False, heartbeatInterval = False, oc_emitted = []\<rparr>"

definition client_m1_m2 :: OpinionWebSocketClient where
  "client_m1_m2 =
     \<lparr>ws = Some \<lparr>readyState = OPEN, ws_sent = [subscribe ''m1'', subscribe ''m2'']\<rparr>,
      reconnectHandler = rh0, subscribedMarkets = [''m1'', ''m2''], isConnected = True,
      heartbeatInterval = True, oc_emitted = [Connected]\<rparr>"

definition pm_client_idle :: PolymarketWebSocketClient where
  "pm_client_idle = \<lparr>pm_ws = None, pm_reconnectHandler = rh0, pm_subscribedMarkets = [],
                      pm_isConnected = False, pm_isAuthenticated = False,
                      pm_heartbeatInterval = False, pm_emitted = []\<rparr>"

definition pm_client_open :: PolymarketWebSocketClient where
  "pm_client_open =
     \<lparr>pm_ws = Some \<lparr>readyState = OPEN, ws_sent = [auth]\<rparr>, pm_reconnectHandler = rh0,
      pm_subscribedMarkets = [], pm_isConnected = True, pm_isAuthenticated = True,
      pm_heartbeatInterval = True, pm_emitted = [Connected]\<rparr>"

text \<open>The same question listed on both venues; its text contains no date.\<close>

definition no_dates :: "string \<Rightarrow> int list" where
  "no_dates text = []"

definition market_o1 :: Market where
  "market_o1 = \<lparr>m_id = ''o1'', m_title = ''Rain tomorrow?'', m_description = None,
                 m_outcomes = [''yes'', ''no''], m_platform = opinion\<rparr>"

definition market_p1 :: Market where
  "market_p1 = \<lparr>m_id = ''p1'', m_title = ''Rain tomorrow?'', m_description = None,
                 m_outcomes = [''yes'', ''no''], m_platform = polymarket\<rparr>"

text \<open>A market whose title has no token of more than two characters.\<close>

definition market_up :: Market where
  "market_up = \<lparr>m_id = ''o2'', m_title = ''Up?'', m_description = None,
                 m_outcomes = [''yes'', ''no''], m_platform = opinion\<rparr>"

section \<open>Properties of the calculator\<close>

lemma size_positive:
  fixes rs m x y :: real
  assumes "0 \<le> m" and "m \<le> rs" and "0 < rs * x - rs * y"
  shows "0 < rs"
proof -
  from assms have "rs \<noteq> 0" by auto
  with assms show ?thesis by simp
qed

lemma calculateArbitrage_unfold:
  "calculateArbitrage cfg a b =
    (let cc = min (path1Cost a b) (path2Cost a b);
         liqA = (if path1Cost a b < path2Cost a b then yesLiquidity a else noLiquidity a);
         liqB = (if path1Cost a b < path2Cost a b then noLiquidity b else yesLiquidity b);
         rs = min (min liqA liqB) (maxPositionSize cfg);
         net = rs * (1 - cc) - rs * (OPINION_FEE_RATE + POLYMARKET_FEE_RATE)
     in if cc < threshold cfg \<and> minLiquidity cfg \<le> rs \<and> 0 < net
        then Some \<lparr>c_combinedCost = cc, c_profitPotential = 1 - cc,
                   c_opinionSide = (if path1Cost a b < path2Cost a b then Yes else No),
                   c_polymarketSide = (if path1Cost a b < path2Cost a b then No else Yes),
                   c_recommendedSize = rs,
                   c_estimatedFees = rs * OPINION_FEE_RATE + rs * POLYMARKET_FEE_RATE,
                   c_netProfit = net\<rparr>
        else None)"
  unfolding calculateArbitrage_def Let_def
  by (cases "path1Cost a b < path2Cost a b")
     (simp_all add: min_def not_le not_less algebra_simps)

text \<open>
  C1. The claim: the price extracted for the outcome NO is 1 minus the mid-price. The code
  returns the mid-price itself for NO: on the book of venue A, with best bid 0.44 and best
  ask 0.46, the price for NO is 0.45 and not 0.55.
\<close>

theorem extractMarketPrices_no_is_mid:
  "extractMarketPrices book_A1 No = Some \<lparr>pl_price = 45 / 100, pl_liquidity = 2000\<rparr>"
  by (simp add: extractMarketPrices_def extractBestPrice_def calculateLiquidity_def book_A1_def)

text \<open>
  C2, as stated, fails where the configured limits are negative: with a minimum liquidity
  of - 10 and a maximal position of - 5, a combined cost of 0.97 is returned as an
  opportunity of size - 5.
\<close>

theorem calculateArbitrage_negative_size:
  "map_option c_recommendedSize
     (calculateArbitrage cfg_negative prices_opinion_47 prices_polymarket_50) = Some (- 5)"
  by (simp add: calculateArbitrage_def cfg_negative_def prices_opinion_47_def
      prices_polymarket_50_def path1Cost_def path2Cost_def OPINION_FEE_RATE_def
      POLYMARKET_FEE_RATE_def Let_def)

text \<open>
  C2, amended. \<open>calculateArbitrage\<close> returns an opportunity if and only if the cheaper of
  the two leg costs is strictly below the threshold, the recommended size (the minimum of
  the liquidity of the chosen side on each venue and of the maximal position size) is at
  least the minimum liquidity, and the net profit after fees is strictly positive. Every
  returned opportunity carries that cost and that size, has a profit potential of 1 minus
  the combined cost and a size of at most the maximal position size; its size is strictly
  positive provided the configured minimum liquidity is not negative.
\<close>

theorem calculateArbitrage_iff:
  "let cc = min (path1Cost a b) (path2Cost a b);
       liqA = (if path1Cost a b < path2Cost a b then yesLiquidity a else noLiquidity a);
       liqB = (if path1Cost a b < path2Cost a b then noLiquidity b else yesLiquidity b);
       rs = min (min liqA liqB) (maxPositionSize cfg);
       net = rs * (1 - cc) - rs * (OPINION_FEE_RATE + POLYMARKET_FEE_RATE)
   in ((\<exists>r. calculateArbitrage cfg a b = Some r)
          \<longleftrightarrow> cc < threshold cfg \<and> minLiquidity cfg \<le> rs \<and> 0 < net)
    \<and> (\<forall>r. calculateArbitrage cfg a b = Some r \<longrightarrow>
           c_combinedCost r = cc \<and> c_recommendedSize r = rs
         \<and> c_profitPotential r = 1 - c_combinedCost r
         \<and> c_recommendedSize r \<le> maxPositionSize cfg
         \<and> (0 \<le> minLiquidity cfg \<longrightarrow> 0 < c_recommendedSize r))"
proof -
  define cc where "cc = min (path1Cost a b) (path2Cost a b)"
  define rs where
    "rs = min (min (if path1Cost a b < path2Cost a b then yesLiquidity a else noLiquidity a)
                   (if path1Cost a b < path2Cost a b then noLiquidity b else yesLiquidity b))
              (maxPositionSize cfg)"
  define net where "net = rs * (1 - cc) - rs * (OPINION_FEE_RATE + POLYMARKET_FEE_RATE)"
  have le: "rs \<le> maxPositionSize cfg" by (simp add: rs_def)
  have pos: "0 < rs" if "0 \<le> minLiquidity cfg" "minLiquidity cfg \<le> rs" "0 < net"
    using that unfolding net_def by (rule size_positive)
  have "calculateArbitrage cfg a b =
      (if cc < threshold cfg \<and> minLiquidity cfg \<le> rs \<and> 0 < net
        then Some \<lparr>c_combinedCost = cc, c_profitPotential = 1 - cc,
                   c_opinionSide = (if path1Cost a b < path2Cost a b then Yes else No),
                   c_polymarketSide = (if path1Cost a b < path2Cost a b then No else Yes),
                   c_recommendedSize = rs,
                   c_estimatedFees = rs * OPINION_FEE_RATE + rs * POLYMARKET_FEE_RATE,
                   c_netProfit = net\<rparr>
        else None)"
    unfolding calculateArbitrage_unfold [of cfg a b] Let_def cc_def rs_def net_def ..
  note eq = this
  have "((\<exists>r. calculateArbitrage cfg a b = Some r)
          \<longleftrightarrow> cc < threshold cfg \<and> minLiquidity cfg \<le> rs \<and> 0 < net)
    \<and> (\<forall>r. calculateArbitrage cfg a b = Some r \<longrightarrow>
           c_combinedCost r = cc \<and> c_recommendedSize r = rs
         \<and> c_profitPotential r = 1 - c_combinedCost r
         \<and> c_recommendedSize r \<le> maxPositionSize cfg
         \<and> (0 \<le> minLiquidity cfg \<longrightarrow> 0 < c_recommendedSize r))"
  proof (cases "cc < threshold cfg \<and> minLiquidity cfg \<le> rs \<and> 0 < net")
    case True
    then have p: "0 \<le> minLiquidity cfg \<longrightarrow> 0 < rs"
      using pos by blast
    from True eq have "calculateArbitrage cfg a b =
        Some \<lparr>c_combinedCost = cc, c_profitPotential = 1 - cc,
                   c_opinionSide = (if path1Cost a b < path2Cost a b then Yes else No),
                   c_polymarketSide = (if path1Cost a b < path2Cost a b then No else Yes),
                   c_recommendedSize = rs,
                   c_estimatedFees = rs * OPINION_FEE_RATE + rs * POLYMARKET_FEE_RATE,
                   c_netProfit = net\<rparr>"
      by simp
    with True le p show ?thesis
      by simp
  next
    case False
    with eq have "calculateArbitrage cfg a b = None"
      by simp
    with False show ?thesis
      by simp
  qed
  then show ?thesis
    unfolding Let_def cc_def rs_def net_def .
qed

theorem calculateArbitrage_iff_witness:
  "(0::real) \<le> minLiquidity cfg_default
   \<and> (\<exists>r. calculateArbitrage cfg_default prices_opinion_45 prices_polymarket_50 = Some r
          \<and> c_recommendedSize r = 1000 \<and> 0 < c_recommendedSize r
          \<and> c_recommendedSize r \<le> maxPositionSize cfg_default)"
  using calculateArbitrage_iff [of prices_opinion_45 prices_polymarket_50 cfg_default]
  by (auto simp add: cfg_default_def prices_opinion_45_def prices_polymarket_50_def
      path1Cost_def path2Cost_def OPINION_FEE_RATE_def POLYMARKET_FEE_RATE_def Let_def)

text \<open>
  C10. \<open>extractMarketPrices\<close> does not look at its outcome argument, and for the two
  \<open>MarketPrices\<close> that the detector builds from it the two candidate leg costs of
  \<open>calculateArbitrage\<close> are equal.
\<close>

theorem extractMarketPrices_ignores_outcome:
  "extractMarketPrices orderbook Yes = extractMarketPrices orderbook No
   \<and> (venuePrices t1 m1 u1 = Some a \<and> venuePrices t2 m2 u2 = Some b
        \<longrightarrow> path1Cost a b = path2Cost a b)"
  by (auto simp: venuePrices_def extractMarketPrices_def path1Cost_def path2Cost_def Let_def
      split: option.splits)

theorem extractMarketPrices_ignores_outcome_witness:
  "venuePrices 0 ''A1'' book_A1 = Some prices_A1
   \<and> venuePrices 0 ''B1'' book_B1 = Some prices_B1
   \<and> path1Cost prices_A1 prices_B1 = path2Cost prices_A1 prices_B1"
proof -
  have a: "venuePrices 0 ''A1'' book_A1 = Some prices_A1"
    by (simp add: venuePrices_def extractMarketPrices_def extractBestPrice_def
        calculateLiquidity_def book_A1_def prices_A1_def)
  have b: "venuePrices 0 ''B1'' book_B1 = Some prices_B1"
    by (simp add: venuePrices_def extractMarketPrices_def extractBestPrice_def
        calculateLiquidity_def book_B1_def prices_B1_def)
  from a b extractMarketPrices_ignores_outcome [of book_A1 0 "''A1''" book_A1 prices_A1
      0 "''B1''" book_B1 prices_B1]
  show ?thesis by simp
qed

end
